theory Spec2Isabelle
  imports Complex_Main "HOL-Library.Char_ord" "HOL-Library.List_Lexorder"
    "HOL-Library.Product_Lexorder"
begin

section \<open>Data model\<close>

text \<open>
  The two pages \<open>pages/2_Overview.py\<close> and \<open>pages/3_Spending Analysis.py\<close> are
  straight-line scripts over a pandas data frame. A data frame is modelled as the list of
  its rows, in row order; a boolean-mask selection \<open>df[mask]\<close> is \<open>filter\<close>.
  Amounts are pandas floats; they are idealised as rationals, so sums and quotients are
  exact. A missing cell (NaN, NaT) is \<open>None\<close>.
\<close>

datatype error = IndexError | ValueError | ZeroDivisionError | ParserError

datatype month =
  January | February | March | April | May | June |
  July | August | September | October | November | December

text \<open>A \<open>datetime.date\<close>, as \<open>st.sidebar.date_input\<close> returns it.\<close>

record date =
  year :: int
  month :: month
  day :: nat

text \<open>A pandas \<open>Timestamp\<close>: a calendar date and the time of day, in nanoseconds since
  midnight.\<close>

record timestamp = date +
  time :: nat

text \<open>One row of the table. The type parameter is the type of the \<open>Date\<close> cell: text before
  \<open>pd.to_datetime\<close>, a timestamp or NaT after it.\<close>

record 'd row =
  Date :: 'd
  Payee :: "string option"
  Tran_Type :: string
  Amount :: rat

type_synonym raw_row = "string option row"
type_synonym txn = "timestamp option row"

fun month_num :: "month \<Rightarrow> nat" where
  "month_num January = 1" | "month_num February = 2" | "month_num March = 3"
| "month_num April = 4" | "month_num May = 5" | "month_num June = 6"
| "month_num July = 7" | "month_num August = 8" | "month_num September = 9"
| "month_num October = 10" | "month_num November = 11" | "month_num December = 12"

text \<open>Timestamps compare chronologically: by year, month, day, then time of day.\<close>

definition ts_key :: "timestamp \<Rightarrow> int \<times> nat \<times> nat \<times> nat" where
  "ts_key t = (year t, month_num (month t), day t, time t)"

text \<open>\<open>pd.to_datetime(date1)\<close> on a \<open>datetime.date\<close>: midnight of that day.\<close>

definition to_datetime :: "date \<Rightarrow> timestamp" where
  "to_datetime d = \<lparr>year = year d, month = month d, day = day d, time = 0\<rparr>"

text \<open>\<open>df["Date"] >= t\<close> and \<open>df["Date"] <= t\<close> on one cell: every comparison with NaT
  is False.\<close>

fun date_ge :: "timestamp option \<Rightarrow> timestamp \<Rightarrow> bool" where
  "date_ge None t = False"
| "date_ge (Some a) t = (ts_key t \<le> ts_key a)"

fun date_le :: "timestamp option \<Rightarrow> timestamp \<Rightarrow> bool" where
  "date_le None t = False"
| "date_le (Some a) t = (ts_key a \<le> ts_key t)"

section \<open>Date-range filter and totals\<close>

text \<open>
  \<^verbatim>\<open>df_filtered = df[(df["Date"] >= pd.to_datetime(date1)) &
                   (df["Date"] <= pd.to_datetime(date2))].copy()\<close>
\<close>

definition df_filtered :: "date \<Rightarrow> date \<Rightarrow> txn list \<Rightarrow> txn list" where
  "df_filtered date1 date2 df =
     filter (\<lambda>r. date_ge (Date r) (to_datetime date1) \<and> date_le (Date r) (to_datetime date2)) df"




definition cash_outflow_trantypes :: "string list" where
  "cash_outflow_trantypes = [''D/D'', ''INT'', ''DEBIT'', ''EFTPOS'', ''BILLPAY'']"

definition cash_inflow_trantypes :: "string list" where
  "cash_inflow_trantypes = [''CREDIT'', ''DEPOSIT'', ''INT'', ''TFR IN'', ''D/C'']"

text \<open>\<open>Series.isin(values)\<close> on one cell.\<close>

definition isin :: "'a \<Rightarrow> 'a list \<Rightarrow> bool" where
  "isin v vs = (v \<in> set vs)"

definition df_outflow :: "txn list \<Rightarrow> txn list" where
  "df_outflow filtered = filter (\<lambda>r. isin (Tran_Type r) cash_outflow_trantypes) filtered"

definition df_inflow :: "txn list \<Rightarrow> txn list" where
  "df_inflow filtered = filter (\<lambda>r. isin (Tran_Type r) cash_inflow_trantypes) filtered"

text \<open>\<^verbatim>\<open>total_expenses = df_outflow[df_outflow['Amount'] < 0]['Amount'].sum()\<close>\<close>

definition total_expenses :: "txn list \<Rightarrow> rat" where
  "total_expenses filtered =
     sum_list (map Amount (filter (\<lambda>r. Amount r < 0) (df_outflow filtered)))"

text \<open>\<^verbatim>\<open>total_income = df_inflow[df_inflow['Amount'] > 0]['Amount'].sum()\<close>\<close>

definition total_income :: "txn list \<Rightarrow> rat" where
  "total_income filtered =
     sum_list (map Amount (filter (\<lambda>r. Amount r > 0) (df_inflow filtered)))"

text \<open>The classifier as the specification words it, to be compared with the two selections
  the totals are computed from.\<close>

datatype flow = Inflow | Outflow | Neither

definition classify_spec :: "'d row \<Rightarrow> flow" where
  "classify_spec r =
     (if Tran_Type r \<in> {''D/D'', ''INT'', ''DEBIT'', ''EFTPOS'', ''BILLPAY''} \<and> Amount r < 0
        then Outflow
      else if Tran_Type r \<in> {''CREDIT'', ''DEPOSIT'', ''INT'', ''TFR IN'', ''D/C''} \<and> Amount r > 0
        then Inflow
      else Neither)"

section \<open>Savings progress\<close>

text \<open>
  The available balance is the result of Python's \<open>float\<close> on the balance text, which
  accepts \<open>nan\<close> and \<open>inf\<close> as well as numerals: a float is a number, an infinity or
  NaN. Numbers are idealised as rationals (no rounding, no overflow). The savings goal
  comes from \<open>st.number_input\<close> and is a number.
\<close>

datatype pyfloat = Fin rat | PInf | NInf | NaN

text \<open>\<open>a < b\<close> on floats: False whenever one side is NaN.\<close>

fun flt :: "pyfloat \<Rightarrow> pyfloat \<Rightarrow> bool" where
  "flt NaN b = False"
| "flt a NaN = False"
| "flt (Fin x) (Fin y) = (x < y)"
| "flt (Fin x) PInf = True"
| "flt (Fin x) NInf = False"
| "flt PInf b = False"
| "flt NInf NInf = False"
| "flt NInf b = True"

text \<open>\<open>a <= b\<close> on floats.\<close>

definition fle :: "pyfloat \<Rightarrow> pyfloat \<Rightarrow> bool" where
  "fle a b = (a \<noteq> NaN \<and> b \<noteq> NaN \<and> (a = b \<or> flt a b))"

text \<open>\<open>a / g\<close> and \<open>a * k\<close> for a float \<open>a\<close> and a number other than zero.\<close>

fun fdiv :: "pyfloat \<Rightarrow> rat \<Rightarrow> pyfloat" where
  "fdiv (Fin x) g = Fin (x / g)"
| "fdiv PInf g = (if 0 < g then PInf else NInf)"
| "fdiv NInf g = (if 0 < g then NInf else PInf)"
| "fdiv NaN g = NaN"

fun fmul :: "pyfloat \<Rightarrow> rat \<Rightarrow> pyfloat" where
  "fmul (Fin x) k = Fin (x * k)"
| "fmul PInf k = (if 0 < k then PInf else NInf)"
| "fmul NInf k = (if 0 < k then NInf else PInf)"
| "fmul NaN k = NaN"

text \<open>The builtins \<open>max(a, b)\<close> and \<open>min(a, b)\<close>: the first argument is kept unless the
  second is strictly greater, respectively strictly smaller.\<close>

definition py_max :: "pyfloat \<Rightarrow> pyfloat \<Rightarrow> pyfloat" where
  "py_max a b = (if flt a b then b else a)"

definition py_min :: "pyfloat \<Rightarrow> pyfloat \<Rightarrow> pyfloat" where
  "py_min a b = (if flt b a then b else a)"

datatype progress_state = NoBalance | NoGoal | Progress pyfloat

text \<open>Python's \<open>/\<close> on floats raises ZeroDivisionError on a zero divisor.\<close>

definition truediv :: "pyfloat \<Rightarrow> rat \<Rightarrow> error + pyfloat" where
  "truediv a b = (if b = 0 then Inl ZeroDivisionError else Inr (fdiv a b))"

text \<open>
  \<^verbatim>\<open>if savings_goal > 0:
    progress = (available_balance / savings_goal) * 100
    progress = min(max(progress, 0), 100)
else:
    st.warning("Please set a savings goal to see your progress.")\<close>
\<close>

definition progress :: "pyfloat \<Rightarrow> rat \<Rightarrow> error + progress_state" where
  "progress available_balance savings_goal =
     (if savings_goal > 0 then
        (case truediv available_balance savings_goal of
           Inl e \<Rightarrow> Inl e
         | Inr q \<Rightarrow> Inr (Progress (py_min (py_max (fmul q 100) (Fin 0)) (Fin 100))))
      else Inr NoGoal)"

text \<open>\<open>str.replace(c, '')\<close> for a one-character \<open>c\<close>.\<close>

definition remove_char :: "char \<Rightarrow> string \<Rightarrow> string" where
  "remove_char c s = filter (\<lambda>x. x \<noteq> c) s"

text \<open>
  The savings container. \<open>balance_value\<close> is the extracted balance text, \<open>''N/A''\<close> when none
  was found. Python's \<open>float\<close> is the parameter \<open>float_of\<close>; \<open>None\<close> is its ValueError.
\<close>

definition savings_container ::
    "(string \<Rightarrow> pyfloat option) \<Rightarrow> string \<Rightarrow> rat \<Rightarrow> error + progress_state" where
  "savings_container float_of balance_value savings_goal =
     (if balance_value \<noteq> ''N/A'' then
        (case float_of (remove_char CHR '','' (remove_char CHR ''$'' balance_value)) of
           None \<Rightarrow> Inl ValueError
         | Some available_balance \<Rightarrow> progress available_balance savings_goal)
      else Inr NoBalance)"

text \<open>The clamp of the specification.\<close>

definition clamp :: "rat \<Rightarrow> rat \<Rightarrow> rat \<Rightarrow> rat" where
  "clamp x lo hi = (if x < lo then lo else if hi < x then hi else x)"

section \<open>Balance extraction\<close>

text \<open>Python string operations used by the extraction loop. Characters are code points
  below 256.\<close>

text \<open>\<open>s.find(sub)\<close>: the lowest index at which \<open>sub\<close> occurs in \<open>s\<close>, or -1.\<close>

fun find_sub :: "string \<Rightarrow> string \<Rightarrow> int" where
  "find_sub [] sub = (if sub = [] then 0 else - 1)"
| "find_sub (c # cs) sub =
     (if take (length sub) (c # cs) = sub then 0
      else (let i = find_sub cs sub in if i < 0 then - 1 else i + 1))"

text \<open>\<open>sub in s\<close>.\<close>

fun contains :: "string \<Rightarrow> string \<Rightarrow> bool" where
  "contains [] sub = (sub = [])"
| "contains (c # cs) sub = (take (length sub) (c # cs) = sub \<or> contains cs sub)"

text \<open>\<open>s[:e]\<close>: a negative \<open>e\<close> counts from the end, and the bounds are clipped.\<close>

definition slice_to :: "string \<Rightarrow> int \<Rightarrow> string" where
  "slice_to s e = (if e < 0 then take (nat (int (length s) + e)) s else take (nat e) s)"

text \<open>\<open>s.split(sep)\<close> for a one-character separator.\<close>

fun split_on :: "char \<Rightarrow> string \<Rightarrow> string list" where
  "split_on sep [] = [[]]"
| "split_on sep (c # cs) =
     (if c = sep then [] # split_on sep cs
      else (case split_on sep cs of
              [] \<Rightarrow> [[c]]
            | w # ws \<Rightarrow> (c # w) # ws))"

text \<open>\<open>xs[i]\<close> for \<open>i \<ge> 0\<close>.\<close>

definition getitem :: "'a list \<Rightarrow> nat \<Rightarrow> error + 'a" where
  "getitem xs i = (if i < length xs then Inr (xs ! i) else Inl IndexError)"

definition is_space :: "char \<Rightarrow> bool" where
  "is_space c = ((of_char c :: nat) \<in> {9, 10, 11, 12, 13, 28, 29, 30, 31, 32, 133, 160})"

text \<open>\<open>s.strip()\<close>.\<close>

definition strip :: "string \<Rightarrow> string" where
  "strip s = rev (dropWhile is_space (rev (dropWhile is_space s)))"

text \<open>
  \<^verbatim>\<open>balance_value = "N/A"
for line in lines:
    if "Avail Bal" in line:
        end_index = line.find(' as of')
        balance_part = line[:end_index]
        balance_value = balance_part.split(':')[1].strip()
        break\<close>
  The result is \<open>balance_value\<close> after the loop, or the exception the loop raised.
\<close>

fun balance_value :: "string list \<Rightarrow> error + string" where
  "balance_value [] = Inr ''N/A''"
| "balance_value (line # lines) =
     (if contains line ''Avail Bal'' then
        (let end_index = find_sub line '' as of'';
             balance_part = slice_to line end_index
         in case getitem (split_on CHR '':'' balance_part) 1 of
              Inl e \<Rightarrow> Inl e
            | Inr v \<Rightarrow> Inr (strip v))
      else balance_value lines)"

section \<open>Reading the table\<close>

text \<open>
  \<open>pd.read_csv\<close> on the uploaded file is the parameter \<open>read_csv\<close>: the file is rewound
  before every attempt, so the outcome depends on the delimiter only; \<open>None\<close> is an
  exception. The first attempt passes no delimiter, which is pandas' default, the comma.
\<close>

datatype message = ErrorReading | WarningDelimiter char | ErrorAttemptsFailed

record 'df load =
  df :: "'df option"
  attempts :: "char list"
  messages :: "message list"

definition delimiters :: "char list" where
  "delimiters = [CHR '','', CHR '';'', CHR 0x09]"

text \<open>
  \<^verbatim>\<open>success = False
for delimiter in [',', ';', '\t']:
    try:
        uploaded_file.seek(0)
        df = pd.read_csv(uploaded_file, delimiter=delimiter, skiprows=6)
        success = True
        break
    except Exception as e:
        st.warning(...)
if not success:
    st.error(...)
    df = None\<close>
\<close>

fun try_delimiters :: "(char \<Rightarrow> 'df option) \<Rightarrow> char list \<Rightarrow> 'df load" where
  "try_delimiters read_csv [] = \<lparr>df = None, attempts = [], messages = [ErrorAttemptsFailed]\<rparr>"
| "try_delimiters read_csv (delimiter # ds) =
     (case read_csv delimiter of
        Some t \<Rightarrow> \<lparr>df = Some t, attempts = [delimiter], messages = []\<rparr>
      | None \<Rightarrow>
          (let l = try_delimiters read_csv ds
           in \<lparr>df = df l, attempts = delimiter # attempts l,
               messages = WarningDelimiter delimiter # messages l\<rparr>))"

text \<open>The \<open>except\<close> branch of both pages: the retries made after the first read raised.\<close>

definition fallback :: "(char \<Rightarrow> 'df option) \<Rightarrow> 'df load" where
  "fallback read_csv =
     (let l = try_delimiters read_csv delimiters
      in l\<lparr>messages := ErrorReading # messages l\<rparr>)"

text \<open>The \<open>try\<close> statement of the Spending Analysis page.\<close>

definition load_spending :: "(char \<Rightarrow> 'df option) \<Rightarrow> 'df load" where
  "load_spending read_csv =
     (case read_csv CHR '','' of
        Some t \<Rightarrow> \<lparr>df = Some t, attempts = [], messages = []\<rparr>
      | None \<Rightarrow> fallback read_csv)"

text \<open>The \<open>try\<close> statement of the Overview page, which also holds the balance loop: an
  exception of that loop reaches the same \<open>except\<close> branch, and \<open>balance_value\<close> keeps the
  value it had.\<close>

definition load_overview :: "(char \<Rightarrow> 'df option) \<Rightarrow> string list \<Rightarrow> 'df load \<times> string" where
  "load_overview read_csv lines =
     (case balance_value lines of
        Inl e \<Rightarrow> (fallback read_csv, ''N/A'')
      | Inr b \<Rightarrow>
          (case read_csv CHR '','' of
             Some t \<Rightarrow> (\<lparr>df = Some t, attempts = [], messages = []\<rparr>, b)
           | None \<Rightarrow> (fallback read_csv, b)))"

text \<open>The retry order of the specification: semicolon, then tab.\<close>

definition retry_delimiters_spec :: "char list" where
  "retry_delimiters_spec = [CHR '';'', CHR 0x09]"

section \<open>Date conversion\<close>

text \<open>
  pandas' date parser on one cell is the parameter \<open>parse\<close>; \<open>None\<close> means the text is
  not a date. An empty cell becomes NaT in both modes.
\<close>

definition with_date :: "'a row \<Rightarrow> 'b \<Rightarrow> 'b row" where
  "with_date r d = \<lparr>Date = d, Payee = Payee r, Tran_Type = Tran_Type r, Amount = Amount r\<rparr>"

text \<open>Overview: \<^verbatim>\<open>df["Date"] = pd.to_datetime(df["Date"])\<close>, which raises on the first
  cell that does not parse.\<close>

fun to_datetime_raise :: "(string \<Rightarrow> timestamp option) \<Rightarrow> raw_row list \<Rightarrow> error + txn list" where
  "to_datetime_raise parse [] = Inr []"
| "to_datetime_raise parse (r # rs) =
     (case Date r of
        None \<Rightarrow>
          (case to_datetime_raise parse rs of
             Inl e \<Rightarrow> Inl e
           | Inr ts \<Rightarrow> Inr (with_date r None # ts))
      | Some s \<Rightarrow>
          (case parse s of
             None \<Rightarrow> Inl ValueError
           | Some t \<Rightarrow>
               (case to_datetime_raise parse rs of
                  Inl e \<Rightarrow> Inl e
                | Inr ts \<Rightarrow> Inr (with_date r (Some t) # ts))))"

text \<open>Spending Analysis:
  \<^verbatim>\<open>df['Date'] = pd.to_datetime(df['Date'], errors='coerce')\<close>.\<close>

definition to_datetime_coerce :: "(string \<Rightarrow> timestamp option) \<Rightarrow> raw_row list \<Rightarrow> txn list" where
  "to_datetime_coerce parse rows =
     map (\<lambda>r. with_date r (case Date r of None \<Rightarrow> None | Some s \<Rightarrow> parse s)) rows"

section \<open>Aggregation\<close>

text \<open>
  \<open>df.groupby(key)[col].sum()\<close>: one entry per distinct non-null key, the keys in sorted
  order (pandas' default), each with the sum of the column over the rows of that key.
  Rows whose key is null belong to no group. \<open>ord\<close> gives the order of the keys.
\<close>

definition groupby_sum ::
    "('r \<Rightarrow> 'k option) \<Rightarrow> ('k \<Rightarrow> 'o::linorder) \<Rightarrow> ('r \<Rightarrow> rat) \<Rightarrow> 'r list \<Rightarrow> ('k \<times> rat) list" where
  "groupby_sum key ord val rows =
     map (\<lambda>k. (k, sum_list (map val (filter (\<lambda>r. key r = Some k) rows))))
       (sort_key ord (remdups (List.map_filter key rows)))"

text \<open>
  Overview:
  \<^verbatim>\<open>payee_summary = df_outflow.groupby("Payee")["Amount"].sum().reset_index()
if not payee_summary.empty:
    payee_summary = payee_summary[payee_summary["Amount"] < 0]\<close>
\<close>

definition payee_summary :: "txn list \<Rightarrow> (string \<times> rat) list" where
  "payee_summary filtered =
     (let summary = groupby_sum Payee (\<lambda>p. p) Amount (df_outflow filtered)
      in if summary \<noteq> [] then filter (\<lambda>(p, a). a < 0) summary else summary)"

text \<open>The per-payee breakdown as the specification words it: only the rows classified
  Outflow are grouped.\<close>

definition by_payee_spec :: "txn list \<Rightarrow> (string \<times> rat) list" where
  "by_payee_spec filtered =
     filter (\<lambda>(p, a). \<not> 0 \<le> a)
       (groupby_sum Payee (\<lambda>p. p) Amount (filter (\<lambda>r. classify_spec r = Outflow) filtered))"

subsection \<open>Month and weekday names\<close>

















subsection \<open>Daily series\<close>

text \<open>\<open>drop_duplicates()\<close>: the first occurrence of each value, in order.\<close>

fun drop_duplicates :: "'a list \<Rightarrow> 'a list" where
  "drop_duplicates [] = []"
| "drop_duplicates (x # xs) = x # drop_duplicates (filter (\<lambda>y. y \<noteq> x) xs)"





text \<open>The date step as the specification words it: a row whose date does not parse is
  dropped, and the number of dropped rows is reported.\<close>

definition parse_dates_spec :: "(string \<Rightarrow> timestamp option) \<Rightarrow> raw_row list \<Rightarrow> txn list \<times> nat" where
  "parse_dates_spec parse rows =
     (List.map_filter
        (\<lambda>r. case Date r of
               None \<Rightarrow> Some (with_date r None)
             | Some s \<Rightarrow> map_option (\<lambda>t. with_date r (Some t)) (parse s)) rows,
      length (filter (\<lambda>r. case Date r of None \<Rightarrow> False | Some s \<Rightarrow> parse s = None) rows))"

section \<open>Properties: classification and totals\<close>

lemma sum_filter_conj_aux:
  "filter P (filter Q xs) = filter (\<lambda>r. Q r \<and> P r) xs"
  by (induction xs) auto

lemma classify_Outflow_iff:
  "classify_spec x = Outflow \<longleftrightarrow> isin (Tran_Type x) cash_outflow_trantypes \<and> Amount x < 0"
  by (simp add: classify_spec_def isin_def cash_outflow_trantypes_def)

lemma classify_Inflow_iff:
  "classify_spec x = Inflow \<longleftrightarrow> isin (Tran_Type x) cash_inflow_trantypes \<and> 0 < Amount x"
  by (auto simp add: classify_spec_def isin_def cash_inflow_trantypes_def)

text \<open>
  C1. The page has no classifier of its own: a row is an expense when \<open>total_expenses\<close>
  sums it and an income when \<open>total_income\<close> sums it. Both totals are the sums over the
  rows the specification's classifier calls Outflow and Inflow: Outflow exactly for a type
  in the outflow list with a negative amount, Inflow exactly for a type in the inflow list
  with a positive amount, Neither otherwise; a zero amount is Neither whatever the type, and
  an INT row is classified by the sign of its amount alone.
\<close>

theorem classifier_totals:
  "total_expenses F = sum_list (map Amount (filter (\<lambda>r. classify_spec r = Outflow) F))
   \<and> total_income F = sum_list (map Amount (filter (\<lambda>r. classify_spec r = Inflow) F))
   \<and> (classify_spec r = Outflow \<longleftrightarrow> isin (Tran_Type r) cash_outflow_trantypes \<and> Amount r < 0)
   \<and> (classify_spec r = Inflow \<longleftrightarrow> isin (Tran_Type r) cash_inflow_trantypes \<and> 0 < Amount r)
   \<and> (classify_spec r = Neither \<longleftrightarrow>
        \<not> (isin (Tran_Type r) cash_outflow_trantypes \<and> Amount r < 0)
        \<and> \<not> (isin (Tran_Type r) cash_inflow_trantypes \<and> 0 < Amount r))
   \<and> (Amount r = 0 \<longrightarrow> classify_spec r = Neither)
   \<and> (Tran_Type r = ''INT'' \<longrightarrow>
        classify_spec r = (if Amount r < 0 then Outflow else if 0 < Amount r then Inflow else Neither))"
proof -
  note out = classify_Outflow_iff and inn = classify_Inflow_iff
  have nei: "classify_spec x = Neither \<longleftrightarrow>
        \<not> (isin (Tran_Type x) cash_outflow_trantypes \<and> Amount x < 0)
        \<and> \<not> (isin (Tran_Type x) cash_inflow_trantypes \<and> 0 < Amount x)"
    for x :: "'a row"
    using out [of x] inn [of x] by (cases "classify_spec x") auto
  have e: "total_expenses F = sum_list (map Amount (filter (\<lambda>r. classify_spec r = Outflow) F))"
    by (simp add: total_expenses_def df_outflow_def sum_filter_conj_aux out)
  have i: "total_income F = sum_list (map Amount (filter (\<lambda>r. classify_spec r = Inflow) F))"
    by (simp add: total_income_def df_inflow_def sum_filter_conj_aux inn)
  have z: "Amount r = 0 \<longrightarrow> classify_spec r = Neither"
    by (simp add: classify_spec_def)
  have t: "Tran_Type r = ''INT'' \<longrightarrow>
        classify_spec r = (if Amount r < 0 then Outflow else if 0 < Amount r then Inflow else Neither)"
    by (simp add: classify_spec_def)
  from e i out [of r] inn [of r] nei [of r] z t show ?thesis by blast
qed

theorem classifier_totals_witness:
  "total_expenses
     [\<lparr>Date = None, Payee = None, Tran_Type = ''INT'', Amount = 0\<rparr>,
      \<lparr>Date = None, Payee = None, Tran_Type = ''INT'', Amount = - 5\<rparr>,
      \<lparr>Date = None, Payee = None, Tran_Type = ''INT'', Amount = 7\<rparr>] = - 5
   \<and> total_income
     [\<lparr>Date = None, Payee = None, Tran_Type = ''INT'', Amount = 0\<rparr>,
      \<lparr>Date = None, Payee = None, Tran_Type = ''INT'', Amount = - 5\<rparr>,
      \<lparr>Date = None, Payee = None, Tran_Type = ''INT'', Amount = 7\<rparr>] = 7
   \<and> Amount \<lparr>Date = None :: timestamp option, Payee = None, Tran_Type = ''INT'', Amount = 0\<rparr> = 0
   \<and> Tran_Type \<lparr>Date = None :: timestamp option, Payee = None, Tran_Type = ''INT'', Amount = 0\<rparr> = ''INT''
   \<and> classify_spec \<lparr>Date = None :: timestamp option, Payee = None, Tran_Type = ''INT'', Amount = 0\<rparr> = Neither"
  using classifier_totals
    [of "[\<lparr>Date = None, Payee = None, Tran_Type = ''INT'', Amount = 0\<rparr>,
      \<lparr>Date = None, Payee = None, Tran_Type = ''INT'', Amount = - 5\<rparr>,
      \<lparr>Date = None, Payee = None, Tran_Type = ''INT'', Amount = 7\<rparr>]"
        "\<lparr>Date = None :: timestamp option, Payee = None, Tran_Type = ''INT'', Amount = 0\<rparr>"]
  by (simp add: classify_spec_def)

section \<open>Properties: savings progress\<close>

text \<open>For a balance that is not NaN the clamp works as the comment on it says: the
  progress lies in [0, 100], and for a number it is the clamp of balance / goal * 100.
  A goal at or below 0 gives NoGoal without dividing.\<close>

lemma progress_number:
  "0 < g \<Longrightarrow> progress (Fin x) g = Inr (Progress (Fin (clamp (x / g * 100) 0 100)))"
  by (simp add: progress_def truediv_def py_min_def py_max_def clamp_def)

lemma progress_in_range:
  "0 < g \<Longrightarrow> b \<noteq> NaN \<Longrightarrow>
     \<exists>p. progress b g = Inr (Progress p) \<and> fle (Fin 0) p \<and> fle p (Fin 100)"
proof (cases b)
  case (Fin x)
  assume "0 < g"
  then have "progress b g = Inr (Progress (Fin (clamp (x / g * 100) 0 100)))"
    using Fin by (simp add: progress_number)
  moreover have "fle (Fin 0) (Fin (clamp y 0 100)) \<and> fle (Fin (clamp y 0 100)) (Fin 100)" for y
    by (auto simp add: fle_def clamp_def)
  ultimately show ?thesis by blast
qed (simp_all add: progress_def truediv_def py_min_def py_max_def fle_def)

lemma progress_no_goal: "g \<le> 0 \<Longrightarrow> progress b g = Inr NoGoal"
  by (simp add: progress_def)

lemma savings_container_progress:
  "bv \<noteq> ''N/A'' \<Longrightarrow> float_of (remove_char CHR '','' (remove_char CHR ''$'' bv)) = Some b \<Longrightarrow>
     savings_container float_of bv g = progress b g"
  by (simp add: savings_container_def)

text \<open>
  C2. The progress is meant to lie in [0, 100] for every available balance and every goal
  above 0. The balance text \<open>nan\<close>, which the extraction loop yields from the line below
  and \<open>float\<close> accepts, gives the balance NaN: both comparisons of \<open>min(max(progress, 0), 100)\<close>
  are False, the progress stays NaN, and NaN is not in [0, 100].
\<close>

theorem progress_nan_not_clamped:
  "balance_value [''Account 12-3456'', ''Avail Bal: nan as of 2024-01-01''] = Inr ''nan''
   \<and> savings_container (map_of [(''nan'', NaN)]) ''nan'' 1000 = Inr (Progress NaN)
   \<and> progress NaN 1000 = Inr (Progress NaN)
   \<and> \<not> (fle (Fin 0) NaN \<and> fle NaN (Fin 100))"
  by (simp add: slice_to_def getitem_def strip_def is_space_def savings_container_def
      remove_char_def progress_def truediv_def py_min_def py_max_def fle_def)

section \<open>Properties: date-range filter\<close>








section \<open>Properties: balance extraction\<close>

text \<open>
  C4. With the marker and the colon present the loop yields the text between the colon and
  the marker, trimmed. Without the marker \<open>find\<close> returns -1 and the slice \<open>line[:-1]\<close>
  cuts the last character of the line, so a balance is still produced, one character
  short; without a colon the index \<open>[1]\<close> raises IndexError. Neither case ends with no
  balance and no error.
\<close>

theorem balance_value_marker_or_colon_absent:
  "balance_value [''Account 12-3456'', ''Avail Bal: $1,234.56 as of 2024-01-01''] = Inr ''$1,234.56''
   \<and> balance_value [''Account 12-3456'', ''Avail Bal: $1,234.56''] = Inr ''$1,234.5''
   \<and> balance_value [''Account 12-3456'', ''Avail Bal $1,234.56 as of 2024-01-01''] = Inl IndexError"
  by (simp add: slice_to_def getitem_def strip_def is_space_def)

section \<open>Properties: delimiter fallback\<close>

text \<open>
  C7, as stated: after the comma read has failed, the retries are the semicolon and then
  the tab. On a file that only reads with a semicolon both pages retry the comma first.
\<close>

theorem retry_order_counterexample:
  "map_of [(CHR '';'', [''Date;Amount''])] CHR '','' = None
   \<and> attempts (load_spending (map_of [(CHR '';'', [''Date;Amount''])])) = [CHR '','', CHR '';'']
   \<and> attempts (fst (load_overview (map_of [(CHR '';'', [''Date;Amount''])]) [])) = [CHR '','', CHR '';'']
   \<and> attempts (try_delimiters (map_of [(CHR '';'', [''Date;Amount''])]) retry_delimiters_spec) = [CHR '';'']
   \<and> attempts (load_spending (map_of [(CHR '';'', [''Date;Amount''])])) \<noteq>
       attempts (try_delimiters (map_of [(CHR '';'', [''Date;Amount''])]) retry_delimiters_spec)"
  by (simp add: load_spending_def load_overview_def fallback_def delimiters_def retry_delimiters_spec_def)

text \<open>
  C7, amended. When the comma read fails, both pages run the same retry loop over comma,
  semicolon, tab, in that order, and stop at the first success. The comma fails again, so
  the table is the one read with the semicolon if that succeeds, else the one read with
  the tab; when all fail there is no table, and the failure message follows the three
  warnings.
\<close>

theorem fallback_retries_comma_semicolon_tab:
  "read_csv CHR '','' = None \<Longrightarrow>
     load_spending read_csv = fallback read_csv
     \<and> fst (load_overview read_csv lines) = fallback read_csv
     \<and> attempts (fallback read_csv) =
           (if read_csv CHR '';'' \<noteq> None then [CHR '','', CHR '';'']
            else [CHR '','', CHR '';'', CHR 0x09])
     \<and> df (fallback read_csv) =
           (case read_csv CHR '';'' of Some t \<Rightarrow> Some t | None \<Rightarrow> read_csv CHR 0x09)
     \<and> (read_csv CHR '';'' = None \<and> read_csv CHR 0x09 = None \<longrightarrow>
           df (fallback read_csv) = None
           \<and> messages (fallback read_csv) =
               [ErrorReading, WarningDelimiter CHR '','', WarningDelimiter CHR '';'',
                WarningDelimiter CHR 0x09, ErrorAttemptsFailed])"
  by (auto simp add: load_spending_def load_overview_def fallback_def delimiters_def Let_def
      split: option.splits sum.splits)

theorem fallback_retries_comma_semicolon_tab_witness:
  "map_of [(CHR 0x09, [''Date Amount''])] CHR '','' = None
   \<and> df (load_spending (map_of [(CHR 0x09, [''Date Amount''])])) = Some [''Date Amount'']
   \<and> attempts (load_spending (map_of [(CHR 0x09, [''Date Amount''])])) = [CHR '','', CHR '';'', CHR 0x09]
   \<and> (map_of [] :: char \<Rightarrow> string list option) CHR '','' = None
   \<and> (map_of [] :: char \<Rightarrow> string list option) CHR '';'' = None
   \<and> (map_of [] :: char \<Rightarrow> string list option) CHR 0x09 = None
   \<and> df (load_spending (map_of [] :: char \<Rightarrow> string list option)) = None
   \<and> messages (load_spending (map_of [] :: char \<Rightarrow> string list option)) =
        [ErrorReading, WarningDelimiter CHR '','', WarningDelimiter CHR '';'',
         WarningDelimiter CHR 0x09, ErrorAttemptsFailed]"
  using fallback_retries_comma_semicolon_tab [of "map_of [(CHR 0x09, [''Date Amount''])]" "[]"]
    fallback_retries_comma_semicolon_tab [of "map_of [] :: char \<Rightarrow> string list option" "[]"]
  by simp

section \<open>Properties: date conversion\<close>

lemma Date_with_date [simp]: "Date (with_date r d) = d"
  by (simp add: with_date_def)

lemma to_datetime_raise_ok:
  "(\<forall>r \<in> set rows. \<forall>s. Date r = Some s \<longrightarrow> parse s \<noteq> None) \<Longrightarrow>
     to_datetime_raise parse rows = Inr (to_datetime_coerce parse rows)"
  by (induction rows) (auto simp add: to_datetime_coerce_def split: option.splits)

lemma to_datetime_raise_fails:
  "(\<exists>r \<in> set rows. \<exists>s. Date r = Some s \<and> parse s = None) \<Longrightarrow>
     to_datetime_raise parse rows = Inl ValueError"
proof (induction rows)
  case Nil
  then show ?case by simp
next
  case (Cons a rows)
  show ?case
  proof (cases "\<exists>s. Date a = Some s \<and> parse s = None")
    case True
    then show ?thesis by auto
  next
    case False
    with Cons.prems have "\<exists>r \<in> set rows. \<exists>s. Date r = Some s \<and> parse s = None"
      by auto
    with Cons.IH have "to_datetime_raise parse rows = Inl ValueError" by simp
    then show ?thesis by (simp split: option.splits)
  qed
qed

lemma filtered_coerce_eq_spec:
  "df_filtered date1 date2 (to_datetime_coerce parse rows) =
     df_filtered date1 date2 (fst (parse_dates_spec parse rows))"
  by (induction rows)
    (auto simp add: parse_dates_spec_def to_datetime_coerce_def df_filtered_def
      split: option.splits)

text \<open>
  C6, as stated: a row whose date does not parse is dropped and counted, and the parse goes
  on. On a table of one good and one bad row the Overview conversion raises, and the
  Spending Analysis conversion keeps both rows, where the specification keeps one and
  reports one dropped.
\<close>

theorem date_failure_counterexample:
  "to_datetime_raise (map_of [(''2024-01-02'', \<lparr>year = 2024, month = January, day = 2, time = 0\<rparr>)])
     [\<lparr>Date = Some ''2024-01-02'', Payee = Some ''Rent'', Tran_Type = ''D/D'', Amount = - 200\<rparr>,
      \<lparr>Date = Some ''31/31/2024'', Payee = Some ''Cafe'', Tran_Type = ''EFTPOS'', Amount = - 4\<rparr>]
     = Inl ValueError
   \<and> to_datetime_coerce (map_of [(''2024-01-02'', \<lparr>year = 2024, month = January, day = 2, time = 0\<rparr>)])
     [\<lparr>Date = Some ''2024-01-02'', Payee = Some ''Rent'', Tran_Type = ''D/D'', Amount = - 200\<rparr>,
      \<lparr>Date = Some ''31/31/2024'', Payee = Some ''Cafe'', Tran_Type = ''EFTPOS'', Amount = - 4\<rparr>]
     = [\<lparr>Date = Some \<lparr>year = 2024, month = January, day = 2, time = 0\<rparr>, Payee = Some ''Rent'',
          Tran_Type = ''D/D'', Amount = - 200\<rparr>,
        \<lparr>Date = None, Payee = Some ''Cafe'', Tran_Type = ''EFTPOS'', Amount = - 4\<rparr>]
   \<and> parse_dates_spec (map_of [(''2024-01-02'', \<lparr>year = 2024, month = January, day = 2, time = 0\<rparr>)])
     [\<lparr>Date = Some ''2024-01-02'', Payee = Some ''Rent'', Tran_Type = ''D/D'', Amount = - 200\<rparr>,
      \<lparr>Date = Some ''31/31/2024'', Payee = Some ''Cafe'', Tran_Type = ''EFTPOS'', Amount = - 4\<rparr>]
     = ([\<lparr>Date = Some \<lparr>year = 2024, month = January, day = 2, time = 0\<rparr>, Payee = Some ''Rent'',
          Tran_Type = ''D/D'', Amount = - 200\<rparr>], 1)"
  by (simp add: to_datetime_coerce_def parse_dates_spec_def with_date_def List.map_filter_simps)

text \<open>
  C6, amended. The Spending Analysis conversion never aborts and drops no row: the table
  keeps its length, and a row whose date does not parse stays in it with a null date. Every
  date window then filters it out, so the filtered table is the one the specification's
  dropping would give. The Overview conversion raises ValueError as soon as one date does
  not parse, and agrees with the other conversion when every date parses.
\<close>

theorem date_failure_coerced_or_raised:
  "length (to_datetime_coerce parse rows) = length rows
   \<and> (\<forall>r \<in> set rows. \<forall>s. Date r = Some s \<and> parse s = None \<longrightarrow>
         with_date r None \<in> set (to_datetime_coerce parse rows))
   \<and> df_filtered date1 date2 (to_datetime_coerce parse rows) =
       df_filtered date1 date2 (fst (parse_dates_spec parse rows))
   \<and> ((\<exists>r \<in> set rows. \<exists>s. Date r = Some s \<and> parse s = None) \<longrightarrow>
         to_datetime_raise parse rows = Inl ValueError)
   \<and> ((\<forall>r \<in> set rows. \<forall>s. Date r = Some s \<longrightarrow> parse s \<noteq> None) \<longrightarrow>
         to_datetime_raise parse rows = Inr (to_datetime_coerce parse rows))"
proof -
  have l: "length (to_datetime_coerce parse rows) = length rows"
    by (simp add: to_datetime_coerce_def)
  have k: "\<forall>r \<in> set rows. \<forall>s. Date r = Some s \<and> parse s = None \<longrightarrow>
         with_date r None \<in> set (to_datetime_coerce parse rows)"
    by (force simp add: to_datetime_coerce_def)
  from l k filtered_coerce_eq_spec [of date1 date2 parse rows]
    to_datetime_raise_fails [of rows parse] to_datetime_raise_ok [of rows parse]
  show ?thesis by blast
qed

theorem date_failure_coerced_or_raised_witness:
  "to_datetime_raise (map_of [(''2024-01-02'', \<lparr>year = 2024, month = January, day = 2, time = 0\<rparr>)])
     [\<lparr>Date = Some ''31/31/2024'', Payee = Some ''Cafe'', Tran_Type = ''EFTPOS'', Amount = - 4\<rparr>]
     = Inl ValueError
   \<and> \<lparr>Date = None, Payee = Some ''Cafe'', Tran_Type = ''EFTPOS'', Amount = - 4\<rparr>
       \<in> set (to_datetime_coerce
           (map_of [(''2024-01-02'', \<lparr>year = 2024, month = January, day = 2, time = 0\<rparr>)])
           [\<lparr>Date = Some ''31/31/2024'', Payee = Some ''Cafe'', Tran_Type = ''EFTPOS'', Amount = - 4\<rparr>])
   \<and> to_datetime_raise (map_of [(''2024-01-02'', \<lparr>year = 2024, month = January, day = 2, time = 0\<rparr>)])
     [\<lparr>Date = Some ''2024-01-02'', Payee = Some ''Rent'', Tran_Type = ''D/D'', Amount = - 200\<rparr>]
     = Inr [\<lparr>Date = Some \<lparr>year = 2024, month = January, day = 2, time = 0\<rparr>, Payee = Some ''Rent'',
          Tran_Type = ''D/D'', Amount = - 200\<rparr>]"
  using date_failure_coerced_or_raised
      [of "map_of [(''2024-01-02'', \<lparr>year = 2024, month = January, day = 2, time = 0\<rparr>)]"
        "[\<lparr>Date = Some ''31/31/2024'', Payee = Some ''Cafe'', Tran_Type = ''EFTPOS'', Amount = - 4\<rparr>]"]
    date_failure_coerced_or_raised
      [of "map_of [(''2024-01-02'', \<lparr>year = 2024, month = January, day = 2, time = 0\<rparr>)]"
        "[\<lparr>Date = Some ''2024-01-02'', Payee = Some ''Rent'', Tran_Type = ''D/D'', Amount = - 200\<rparr>]"]
  by (simp add: to_datetime_coerce_def with_date_def)



section \<open>Properties: grouping\<close>

lemma set_map_filter_key:
  "set (List.map_filter key rows) = {k. \<exists>r \<in> set rows. key r = Some k}"
  by (induction rows) (auto split: option.splits)

lemma map_fst_groupby_sum:
  "map fst (groupby_sum key ord val rows) = sort_key ord (remdups (List.map_filter key rows))"
  by (simp add: groupby_sum_def comp_def)

lemma distinct_groupby_sum: "distinct (map fst (groupby_sum key ord val rows))"
  by (simp add: map_fst_groupby_sum)

lemma set_groupby_sum:
  "set (groupby_sum key ord val rows) =
     {(k, a). (\<exists>r \<in> set rows. key r = Some k)
              \<and> a = sum_list (map val (filter (\<lambda>r. key r = Some k) rows))}"
  by (auto simp add: groupby_sum_def set_map_filter_key)

lemma df_outflow_idem: "df_outflow (df_outflow F) = df_outflow F"
  by (simp add: df_outflow_def)

section \<open>Properties: per-payee breakdown\<close>

text \<open>
  C3, as stated: only the rows classified Outflow are grouped. A payee with a debit of -50
  and a debit-type refund of +20 is listed with -30 by the page and with -50 by the
  specification.
\<close>

theorem payee_summary_counterexample:
  "payee_summary
     [\<lparr>Date = Some \<lparr>year = 2024, month = March, day = 1, time = 0\<rparr>, Payee = Some ''Shop'',
        Tran_Type = ''DEBIT'', Amount = - 50\<rparr>,
      \<lparr>Date = Some \<lparr>year = 2024, month = March, day = 8, time = 0\<rparr>, Payee = Some ''Shop'',
        Tran_Type = ''DEBIT'', Amount = 20\<rparr>] = [(''Shop'', - 30)]
   \<and> by_payee_spec
     [\<lparr>Date = Some \<lparr>year = 2024, month = March, day = 1, time = 0\<rparr>, Payee = Some ''Shop'',
        Tran_Type = ''DEBIT'', Amount = - 50\<rparr>,
      \<lparr>Date = Some \<lparr>year = 2024, month = March, day = 8, time = 0\<rparr>, Payee = Some ''Shop'',
        Tran_Type = ''DEBIT'', Amount = 20\<rparr>] = [(''Shop'', - 50)]"
  by code_simp

text \<open>
  C3, amended. The breakdown groups the rows whose type is in the outflow list, whatever
  the sign of their amount, by payee and sums their amounts; a payee is listed, once, exactly
  when that sum is negative; rows of any other type contribute nothing.
\<close>

theorem payee_summary_groups_outflow_types:
  "((p, a) \<in> set (payee_summary filtered) \<longleftrightarrow>
      (\<exists>r \<in> set filtered. Payee r = Some p \<and> isin (Tran_Type r) cash_outflow_trantypes)
      \<and> a = sum_list (map Amount
                (filter (\<lambda>r. isin (Tran_Type r) cash_outflow_trantypes \<and> Payee r = Some p) filtered))
      \<and> a < 0)
   \<and> distinct (map fst (payee_summary filtered))
   \<and> payee_summary (filter (\<lambda>r. isin (Tran_Type r) cash_outflow_trantypes) filtered) =
       payee_summary filtered"
proof -
  let ?g = "groupby_sum Payee (\<lambda>p. p) Amount (df_outflow filtered)"
  have ps: "payee_summary filtered = filter (\<lambda>(p, a). a < 0) ?g"
    by (cases "?g = []") (simp_all add: payee_summary_def Let_def)
  have m: "(p, a) \<in> set (payee_summary filtered) \<longleftrightarrow>
      (\<exists>r \<in> set filtered. Payee r = Some p \<and> isin (Tran_Type r) cash_outflow_trantypes)
      \<and> a = sum_list (map Amount
                (filter (\<lambda>r. isin (Tran_Type r) cash_outflow_trantypes \<and> Payee r = Some p) filtered))
      \<and> a < 0"
    by (auto simp add: ps set_groupby_sum df_outflow_def)
  have d: "distinct (map fst (payee_summary filtered))"
    unfolding ps by (rule distinct_map_filter) (rule distinct_groupby_sum)
  have i: "payee_summary (filter (\<lambda>r. isin (Tran_Type r) cash_outflow_trantypes) filtered) =
       payee_summary filtered"
    using df_outflow_idem [of filtered] by (simp add: payee_summary_def df_outflow_def)
  from m d i show ?thesis by blast
qed

theorem payee_summary_groups_outflow_types_witness:
  "(''Shop'', - 30) \<in> set (payee_summary
     [\<lparr>Date = Some \<lparr>year = 2024, month = March, day = 1, time = 0\<rparr>, Payee = Some ''Shop'',
        Tran_Type = ''DEBIT'', Amount = - 50\<rparr>,
      \<lparr>Date = Some \<lparr>year = 2024, month = March, day = 8, time = 0\<rparr>, Payee = Some ''Shop'',
        Tran_Type = ''DEBIT'', Amount = 20\<rparr>,
      \<lparr>Date = Some \<lparr>year = 2024, month = March, day = 9, time = 0\<rparr>, Payee = Some ''Shop'',
        Tran_Type = ''CREDIT'', Amount = 7\<rparr>])"
  using payee_summary_groups_outflow_types [of "''Shop''" "- 30"
     "[\<lparr>Date = Some \<lparr>year = 2024, month = March, day = 1, time = 0\<rparr>, Payee = Some ''Shop'',
        Tran_Type = ''DEBIT'', Amount = - 50\<rparr>,
      \<lparr>Date = Some \<lparr>year = 2024, month = March, day = 8, time = 0\<rparr>, Payee = Some ''Shop'',
        Tran_Type = ''DEBIT'', Amount = 20\<rparr>,
      \<lparr>Date = Some \<lparr>year = 2024, month = March, day = 9, time = 0\<rparr>, Payee = Some ''Shop'',
        Tran_Type = ''CREDIT'', Amount = 7\<rparr>]"]
  by (simp add: isin_def cash_outflow_trantypes_def)

section \<open>Properties: monthly and weekday totals\<close>











section \<open>Properties: daily series\<close>

lemma set_drop_duplicates [simp]: "set (drop_duplicates xs) = set xs"
  by (induction xs rule: drop_duplicates.induct) auto

lemma distinct_drop_duplicates [simp]: "distinct (drop_duplicates xs)"
  by (induction xs rule: drop_duplicates.induct) auto

















end
